theory Spec2Isabelle
  imports Main "HOL-Library.Word" "HOL-Library.Sublist"
begin

section \<open>The browser platform, as far as the service worker uses it\<close>

text \<open>
  \<^verbatim>\<open>sw.js\<close> is written against three browser interfaces: \<^verbatim>\<open>fetch\<close>, the cache storage
  (\<^verbatim>\<open>caches\<close>) and the single caches it holds. They are modelled as follows.
  \<^item> A URL is a \<open>string\<close> (serialised URLs are ASCII). A request carries its URL, its HTTP
    method, its cache mode and its headers; a response its status, headers and body.
  \<^item> A cache is a list of pairs of a request and a response, in the order in which they
    were stored; the cache storage is an association list from cache name to cache, in
    creation order, which is the order \<^verbatim>\<open>caches.keys()\<close> and \<^verbatim>\<open>caches.match\<close> follow.
  \<^item> A request matches a stored pair as the Cache interface has it: the URLs are equal up
    to the fragment, and for every header that the stored response names in \<^verbatim>\<open>Vary\<close>
    the two requests carry the same value.
  \<^item> \<^verbatim>\<open>cache.put\<close> and \<^verbatim>\<open>cache.addAll\<close> reject what the Cache interface rejects: a request
    that is not a GET over http or https, a response with status 206, a response whose
    \<^verbatim>\<open>Vary\<close> header names \<^verbatim>\<open>*\<close>, and for \<^verbatim>\<open>addAll\<close> also a response that is not ok and a
    request that matches an earlier one of the same call. A rejected call stores nothing.
  \<^item> The network is a function from requests to either a thrown error or a response.
    Every call of \<^verbatim>\<open>fetch\<close> is appended to the log \<open>fetched\<close> of the state.
  \<^item> The handlers do not await \<^verbatim>\<open>cache.put\<close>: a rejection of it is lost, and its write is
    recorded at the point where the handler issues it.
  \<^item> The storage never runs out of quota, and the body of a response arrives
    completely and is unread when the response is stored. The field values of \<^verbatim>\<open>Vary\<close> are the comma-separated parts of the header
    value, without surrounding blanks.
\<close>

datatype error = TypeError string | InvalidStateError string

record response =
  status :: nat
  headers :: "(string \<times> string) list"
  body :: string

definition ok :: "response \<Rightarrow> bool" where
  "ok r = (200 \<le> status r \<and> status r \<le> 299)"

record request =
  url :: string
  http_method :: string
  cache_mode :: string
  request_headers :: "(string \<times> string) list"

type_synonym cache = "(request \<times> response) list"

type_synonym cache_storage = "(string \<times> cache) list"

type_synonym network = "request \<Rightarrow> error + response"

record sw_state =
  caches :: cache_storage
  fetched :: "request list"

subsection \<open>URLs and headers\<close>

text \<open>
  \<^verbatim>\<open>new Request(url, { cache: mode })\<close> inside the worker: a root-relative URL is
  resolved against the origin the worker is served from, an absolute one is kept. The
  request is a GET without headers. An origin is a scheme, \<^verbatim>\<open>http\<close> or \<^verbatim>\<open>https\<close>, and
  an authority, which has no slash, question mark or fragment sign.
\<close>

definition authority_of :: "string \<Rightarrow> string" where
  "authority_of origin =
     (if prefix ''https://'' origin then drop 8 origin
      else if prefix ''http://'' origin then drop 7 origin
      else [])"

definition is_origin :: "string \<Rightarrow> bool" where
  "is_origin origin =
     (authority_of origin \<noteq> [] \<and>
      list_all (\<lambda>c. c \<noteq> CHR ''/'' \<and> c \<noteq> CHR ''?'' \<and> c \<noteq> CHR ''#'')
        (authority_of origin))"

definition resolve :: "string \<Rightarrow> string \<Rightarrow> string" where
  "resolve origin u = (if prefix ''/'' u then origin @ u else u)"

definition new_Request :: "string \<Rightarrow> string \<Rightarrow> string \<Rightarrow> request" where
  "new_Request origin u mode =
     \<lparr>url = resolve origin u, http_method = ''GET'', cache_mode = mode, request_headers = []\<rparr>"

text \<open>
  \<open>protocol\<close> is the \<^verbatim>\<open>protocol\<close> field of the parsed URL: the scheme and its colon.
  \<open>cache_key\<close> is the URL without its fragment.
\<close>

definition protocol :: "string \<Rightarrow> string" where
  "protocol u = takeWhile (\<lambda>c. c \<noteq> CHR '':'') u @ '':''"

definition http_scheme :: "string \<Rightarrow> bool" where
  "http_scheme u = (protocol u = ''http:'' \<or> protocol u = ''https:'')"

definition cache_key :: "request \<Rightarrow> string" where
  "cache_key q = takeWhile (\<lambda>c. c \<noteq> CHR ''#'') (url q)"

text \<open>
  Header names are compared without regard to case. The value of a header that occurs
  several times is the values joined by a comma and a blank.
\<close>

definition lower :: "char \<Rightarrow> char" where
  "lower c = (let n = (of_char c :: nat) in if 65 \<le> n \<and> n \<le> 90 then char_of (n + 32) else c)"

definition get_header :: "string \<Rightarrow> (string \<times> string) list \<Rightarrow> string option" where
  "get_header n hs =
     (case map snd (filter (\<lambda>(k, v). map lower k = map lower n) hs) of
        [] \<Rightarrow> None
      | v # vs \<Rightarrow> Some (foldl (\<lambda>a b. a @ '', '' @ b) v vs))"

fun split_on :: "char \<Rightarrow> string \<Rightarrow> string list" where
  "split_on c [] = [[]]"
| "split_on c (x # xs) =
     (if x = c then [] # split_on c xs
      else (case split_on c xs of [] \<Rightarrow> [[x]] | w # ws \<Rightarrow> (x # w) # ws))"

definition blank :: "char \<Rightarrow> bool" where
  "blank c = (c = CHR '' '' \<or> c = CHR 0x09 \<or> c = CHR 0x0A \<or> c = CHR 0x0D)"

definition trim :: "string \<Rightarrow> string" where
  "trim s = rev (dropWhile blank (rev (dropWhile blank s)))"

definition vary_fields :: "response \<Rightarrow> string list" where
  "vary_fields r =
     (case get_header ''Vary'' (headers r) of
        None \<Rightarrow> []
      | Some v \<Rightarrow> map trim (split_on (CHR '','') v))"

definition vary_star :: "response \<Rightarrow> bool" where
  "vary_star r = list_ex (\<lambda>f. f = ''*'') (vary_fields r)"

subsection \<open>fetch\<close>

definition fetch :: "network \<Rightarrow> request \<Rightarrow> sw_state \<Rightarrow> (error + response) \<times> sw_state" where
  "fetch net req st = (net req, st\<lparr>fetched := fetched st @ [req]\<rparr>)"

subsection \<open>Looking a request up\<close>

text \<open>
  Whether the request \<open>query\<close> matches a stored pair. The first conjunct is about the
  stored request, which is always a GET.
\<close>

definition request_matches :: "request \<Rightarrow> request \<times> response \<Rightarrow> bool" where
  "request_matches query item =
     (case item of (cached, r) \<Rightarrow>
        http_method cached = ''GET'' \<and>
        cache_key query = cache_key cached \<and>
        list_all (\<lambda>f. f \<noteq> ''*'' \<and>
                       get_header f (request_headers cached) =
                       get_header f (request_headers query))
          (vary_fields r))"

text \<open>
  \<^verbatim>\<open>cache.match\<close>: the first stored pair that the request matches; nothing for a request
  that is not a GET. \<^verbatim>\<open>caches.match\<close>: the answer of the first cache, in creation
  order, that has one.
\<close>

definition cache_match :: "cache \<Rightarrow> request \<Rightarrow> response option" where
  "cache_match c query =
     (if http_method query \<noteq> ''GET'' then None
      else map_option snd (find (request_matches query) c))"

fun caches_match :: "cache_storage \<Rightarrow> request \<Rightarrow> response option" where
  "caches_match [] query = None"
| "caches_match ((cacheName, c) # cs) query =
     (case cache_match c query of Some r \<Rightarrow> Some r | None \<Rightarrow> caches_match cs query)"

subsection \<open>The cache storage\<close>

definition caches_keys :: "cache_storage \<Rightarrow> string list" where
  "caches_keys cs = map fst cs"

text \<open>\<^verbatim>\<open>caches.open\<close> creates the named cache, empty, when it does not exist yet.\<close>

definition caches_open :: "string \<Rightarrow> cache_storage \<Rightarrow> cache_storage" where
  "caches_open cacheName cs =
     (if cacheName \<in> set (caches_keys cs) then cs else cs @ [(cacheName, [])])"

definition caches_delete :: "string \<Rightarrow> cache_storage \<Rightarrow> cache_storage" where
  "caches_delete cacheName cs = filter (\<lambda>(n, c). n \<noteq> cacheName) cs"

text \<open>The entries of a named cache; a cache that does not exist has none.\<close>

definition entries :: "cache_storage \<Rightarrow> string \<Rightarrow> cache" where
  "entries cs cacheName = (case map_of cs cacheName of Some c \<Rightarrow> c | None \<Rightarrow> [])"

subsection \<open>Storing\<close>

text \<open>
  One put operation of a batch removes the pairs that the request matches and appends
  the new pair. A batch fails as a whole, leaving the cache as it was, when a request
  matches a pair that the same batch added before, or is not a GET over http or https.
\<close>

definition put_entry :: "request \<Rightarrow> response \<Rightarrow> cache \<Rightarrow> cache" where
  "put_entry q r c = filter (\<lambda>item. \<not> request_matches q item) c @ [(q, r)]"

definition valid_request :: "request \<Rightarrow> bool" where
  "valid_request q = (http_scheme (url q) \<and> http_method q = ''GET'')"

fun batch_put ::
  "(request \<times> response) list \<Rightarrow> (request \<times> response) list \<Rightarrow> cache \<Rightarrow> error + cache" where
  "batch_put [] added c = Inr c"
| "batch_put ((q, r) # ops) added c =
     (if list_ex (request_matches q) added then Inl (InvalidStateError ''duplicate requests'')
      else if valid_request q then batch_put ops (added @ [(q, r)]) (put_entry q r c)
      else Inl (TypeError ''Request not supported''))"

text \<open>
  \<^verbatim>\<open>cache.put(request, response)\<close> on one cache: the promise it returns, fulfilled with
  the new content of the cache or rejected.
\<close>

definition put :: "request \<Rightarrow> response \<Rightarrow> cache \<Rightarrow> error + cache" where
  "put q r c =
     (if valid_request q \<and> status r \<noteq> 206 \<and> \<not> vary_star r then batch_put [(q, r)] [] c
      else Inl (TypeError ''Request or response not supported''))"

text \<open>
  \<^verbatim>\<open>cache.put\<close> as the handlers call it, on the cache opened under \<open>cacheName\<close> and
  without waiting for the promise: when the promise is rejected the cache is unchanged,
  and nobody learns of it.
\<close>

definition cache_put :: "string \<Rightarrow> request \<Rightarrow> response \<Rightarrow> cache_storage \<Rightarrow> cache_storage" where
  "cache_put cacheName q r cs =
     map (\<lambda>(n, c). if n = cacheName
                    then (n, case put q r c of Inr c' \<Rightarrow> c' | Inl e \<Rightarrow> c)
                    else (n, c)) cs"

text \<open>
  \<^verbatim>\<open>cache.addAll\<close> rejects at once, before any fetch, when a request is not a GET over
  http or https. Otherwise it fetches every request, accepts the responses only when
  each is ok, has not status 206 and names no \<^verbatim>\<open>*\<close> in \<^verbatim>\<open>Vary\<close>, and stores them as one
  batch.
\<close>

fun fetch_all :: "network \<Rightarrow> request list \<Rightarrow> error + (request \<times> response) list" where
  "fetch_all net [] = Inr []"
| "fetch_all net (req # reqs) =
     (case net req of
        Inl e \<Rightarrow> Inl e
      | Inr r \<Rightarrow>
          if ok r \<and> status r \<noteq> 206 \<and> \<not> vary_star r
          then (case fetch_all net reqs of
                  Inl e \<Rightarrow> Inl e
                | Inr kvs \<Rightarrow> Inr ((req, r) # kvs))
          else Inl (TypeError ''Request failed''))"

definition cache_addAll ::
  "network \<Rightarrow> string \<Rightarrow> request list \<Rightarrow> sw_state \<Rightarrow> (error + unit) \<times> sw_state" where
  "cache_addAll net cacheName reqs st =
     (if list_all valid_request reqs
      then (let st1 = st\<lparr>fetched := fetched st @ reqs\<rparr> in
            case fetch_all net reqs of
              Inl e \<Rightarrow> (Inl e, st1)
            | Inr kvs \<Rightarrow>
                (case batch_put kvs [] (entries (caches st1) cacheName) of
                   Inl e \<Rightarrow> (Inl e, st1)
                 | Inr c' \<Rightarrow>
                     (Inr (),
                      st1\<lparr>caches := map (\<lambda>(n, c). if n = cacheName then (n, c') else (n, c))
                                         (caches st1)\<rparr>)))
      else (Inl (TypeError ''Request not supported''), st))"

section \<open>sw.js\<close>

definition CACHE_STATIC_NAME :: string where
  "CACHE_STATIC_NAME = ''police288-static-v2.1.0''"

definition CACHE_DYNAMIC_NAME :: string where
  "CACHE_DYNAMIC_NAME = ''police288-dynamic-v2.1.0''"

definition STATIC_CACHE_URLS :: "string list" where
  "STATIC_CACHE_URLS =
     [''/'',
      ''/index.html'',
      ''/styles.css?v=2.1.0&t=1734705600'',
      ''/mobile-reviews.css?v=2.1.0&t=1734705600'',
      ''/script.js?v=2.1.0&t=1734705600'',
      ''/public/images/288-flashlight-main-image.jpg'',
      ''/confirmation.html'',
      ''https://fonts.googleapis.com/css2?family=Cairo:wght@400;600;700&display=swap'',
      ''https://fonts.gstatic.com/s/cairo/v28/SLXgc1nY6HkvalYAIYM4_z6rC7TODm6H7xaFU6jd_E0w0tKLUdwqjZjL.woff2'']"

definition manifest_requests :: "string \<Rightarrow> request list" where
  "manifest_requests origin = map (\<lambda>u. new_Request origin u ''reload'') STATIC_CACHE_URLS"

subsection \<open>Install\<close>

text \<open>
  The promise handed to \<^verbatim>\<open>event.waitUntil\<close>. Both \<^verbatim>\<open>caches.open\<close> calls are issued while
  the array for \<^verbatim>\<open>Promise.all\<close> is built, the static one first. The final \<^verbatim>\<open>.catch\<close>
  logs the error and returns nothing, so the promise it produces is fulfilled. The
  flag says whether \<^verbatim>\<open>self.skipWaiting()\<close> was called.
\<close>

datatype settled = Fulfilled | Rejected error

definition install :: "string \<Rightarrow> network \<Rightarrow> sw_state \<Rightarrow> (settled \<times> bool) \<times> sw_state" where
  "install origin net st =
     (let st1 = st\<lparr>caches := caches_open CACHE_DYNAMIC_NAME
                                (caches_open CACHE_STATIC_NAME (caches st))\<rparr> in
      case cache_addAll net CACHE_STATIC_NAME (manifest_requests origin) st1 of
        (Inr u, st2) \<Rightarrow> ((Fulfilled, True), st2)
      | (Inl error, st2) \<Rightarrow> ((Fulfilled, False), st2))"

subsection \<open>Activate\<close>

definition is_old_cache :: "string \<Rightarrow> bool" where
  "is_old_cache cacheName =
     (cacheName \<noteq> CACHE_STATIC_NAME \<and> cacheName \<noteq> CACHE_DYNAMIC_NAME \<and>
      prefix ''police288-'' cacheName)"

definition activate :: "cache_storage \<Rightarrow> cache_storage" where
  "activate cs =
     fold (\<lambda>cacheName acc. if is_old_cache cacheName then caches_delete cacheName acc else acc)
       (caches_keys cs) cs"

subsection \<open>Classification\<close>

text \<open>
  \<^verbatim>\<open>String.prototype.includes\<close>, \<^verbatim>\<open>String.prototype.replace\<close> with a string pattern (the
  first occurrence only) and the test of a regular expression of the shape
  \<^verbatim>\<open>/\.(e1|e2|...)$/i\<close>.
\<close>

definition js_includes :: "string \<Rightarrow> string \<Rightarrow> bool" where
  "js_includes s sub = sublist sub s"

definition replace_slash :: "string \<Rightarrow> string" where
  "replace_slash s = remove1 (CHR ''/'') s"

definition has_extension :: "string list \<Rightarrow> string \<Rightarrow> bool" where
  "has_extension exts u = list_ex (\<lambda>e. suffix (CHR ''.'' # e) (map lower u)) exts"

definition isStaticAsset :: "string \<Rightarrow> bool" where
  "isStaticAsset u =
     (list_ex (\<lambda>staticUrl. js_includes u (replace_slash staticUrl)) STATIC_CACHE_URLS \<or>
      has_extension [''css'', ''js'', ''woff2'', ''woff'', ''ttf''] u)"

definition isImageRequest :: "string \<Rightarrow> bool" where
  "isImageRequest u =
     has_extension [''png'', ''jpg'', ''jpeg'', ''gif'', ''webp'', ''avif'', ''svg'', ''ico''] u"

definition isAPIRequest :: "string \<Rightarrow> bool" where
  "isAPIRequest u =
     (js_includes u ''make.com'' \<or> js_includes u ''analytics.tiktok.com'' \<or>
      js_includes u ''googleapis.com'')"

subsection \<open>Handlers\<close>

text \<open>
  A handler is an async function: it resolves with a response or with \<^verbatim>\<open>undefined\<close>
  (\<open>Inr (Some r)\<close>, \<open>Inr None\<close>) or rejects with an error (\<open>Inl e\<close>).
\<close>

type_synonym handled = "(error + response option) \<times> sw_state"

definition handleStaticAsset :: "network \<Rightarrow> request \<Rightarrow> sw_state \<Rightarrow> handled" where
  "handleStaticAsset net req st =
     (case caches_match (caches st) req of
        Some cachedResponse \<Rightarrow> (Inr (Some cachedResponse), st)
      | None \<Rightarrow>
          (case fetch net req st of
             (Inr networkResponse, st1) \<Rightarrow>
               (let st2 = st1\<lparr>caches := caches_open CACHE_STATIC_NAME (caches st1)\<rparr>;
                    st3 = (if ok networkResponse
                           then st2\<lparr>caches := cache_put CACHE_STATIC_NAME req
                                                  networkResponse (caches st2)\<rparr>
                           else st2)
                in (Inr (Some networkResponse), st3))
           | (Inl error, st1) \<Rightarrow> (Inr (caches_match (caches st1) req), st1)))"

definition placeholder_svg :: string where
  "placeholder_svg =
     ''<svg xmlns='' @ [CHR 0x22] @ ''http://www.w3.org/2000/svg'' @ [CHR 0x22] @
     '' width='' @ [CHR 0x22] @ ''200'' @ [CHR 0x22] @
     '' height='' @ [CHR 0x22] @ ''150'' @ [CHR 0x22] @
     '' viewBox='' @ [CHR 0x22] @ ''0 0 200 150'' @ [CHR 0x22] @ ''>'' @ [CHR 0x0A] @
     ''                <rect width='' @ [CHR 0x22] @ ''200'' @ [CHR 0x22] @
     '' height='' @ [CHR 0x22] @ ''150'' @ [CHR 0x22] @
     '' fill='' @ [CHR 0x22] @ ''#f1f5f9'' @ [CHR 0x22] @ ''/>'' @ [CHR 0x0A] @
     ''                <text x='' @ [CHR 0x22] @ ''50%'' @ [CHR 0x22] @
     '' y='' @ [CHR 0x22] @ ''50%'' @ [CHR 0x22] @
     '' text-anchor='' @ [CHR 0x22] @ ''middle'' @ [CHR 0x22] @
     '' dy='' @ [CHR 0x22] @ ''.3em'' @ [CHR 0x22] @
     '' fill='' @ [CHR 0x22] @ ''#64748b'' @ [CHR 0x22] @ ''>'' @
     [CHR 0xF0, CHR 0x9F, CHR 0x93, CHR 0xB7] @ ''</text>'' @ [CHR 0x0A] @
     ''            </svg>''"

definition placeholder :: response where
  "placeholder =
     \<lparr>status = 200, headers = [(''Content-Type'', ''image/svg+xml'')], body = placeholder_svg\<rparr>"

definition handleImageRequest :: "network \<Rightarrow> request \<Rightarrow> sw_state \<Rightarrow> handled" where
  "handleImageRequest net req st =
     (case caches_match (caches st) req of
        Some cachedResponse \<Rightarrow> (Inr (Some cachedResponse), st)
      | None \<Rightarrow>
          (case fetch net req st of
             (Inr networkResponse, st1) \<Rightarrow>
               (let st2 = (if ok networkResponse
                           then st1\<lparr>caches := cache_put CACHE_DYNAMIC_NAME req networkResponse
                                                  (caches_open CACHE_DYNAMIC_NAME (caches st1))\<rparr>
                           else st1)
                in (Inr (Some networkResponse), st2))
           | (Inl error, st1) \<Rightarrow>
               (case caches_match (caches st1) req of
                  Some cachedResponse \<Rightarrow> (Inr (Some cachedResponse), st1)
                | None \<Rightarrow> (Inr (Some placeholder), st1))))"

definition handleAPIRequest :: "network \<Rightarrow> request \<Rightarrow> sw_state \<Rightarrow> handled" where
  "handleAPIRequest net req st =
     (case fetch net req st of
        (Inr networkResponse, st1) \<Rightarrow> (Inr (Some networkResponse), st1)
      | (Inl error, st1) \<Rightarrow> (Inl error, st1))"

definition handleHTMLRequest :: "string \<Rightarrow> network \<Rightarrow> request \<Rightarrow> sw_state \<Rightarrow> handled" where
  "handleHTMLRequest origin net req st =
     (case fetch net req st of
        (Inr networkResponse, st1) \<Rightarrow>
          (let st2 = (if ok networkResponse
                      then st1\<lparr>caches := cache_put CACHE_DYNAMIC_NAME req networkResponse
                                             (caches_open CACHE_DYNAMIC_NAME (caches st1))\<rparr>
                      else st1)
           in (Inr (Some networkResponse), st2))
      | (Inl error, st1) \<Rightarrow>
          (case caches_match (caches st1) req of
             Some cachedResponse \<Rightarrow> (Inr (Some cachedResponse), st1)
           | None \<Rightarrow> (Inr (caches_match (caches st1) (new_Request origin ''/index.html'' ''default'')),
                      st1)))"

subsection \<open>The fetch listener\<close>

text \<open>
  \<open>None\<close>: the listener returns without calling \<^verbatim>\<open>event.respondWith\<close>, and the browser
  handles the request itself. \<open>Some h\<close>: the listener answers with the handler's promise.
  The second fetch listener of the file only measures how long a request takes and never
  answers one; it is left out.
\<close>

definition fetch_listener :: "string \<Rightarrow> network \<Rightarrow> request \<Rightarrow> sw_state \<Rightarrow> handled option" where
  "fetch_listener origin net req st =
     (if http_method req \<noteq> ''GET'' then None
      else if \<not> prefix ''http'' (protocol (url req)) then None
      else if isStaticAsset (url req) then Some (handleStaticAsset net req st)
      else if isImageRequest (url req) then Some (handleImageRequest net req st)
      else if isAPIRequest (url req) then Some (handleAPIRequest net req st)
      else Some (handleHTMLRequest origin net req st))"

subsection \<open>Cache management\<close>


section \<open>script.js\<close>

subsection \<open>convertArabicToEnglishNumbers\<close>

text \<open>
  A JavaScript string is a sequence of UTF-16 code units. The Arabic-Indic digits are the
  code units U+0660 to U+0669. \<^verbatim>\<open>result.replace(new RegExp(a, 'g'), e)\<close> with a pattern
  and a replacement of one code unit each rewrites every occurrence of the pattern.
\<close>

type_synonym jsstring = "16 word list"

definition arabicNumbers :: "16 word list" where
  "arabicNumbers = [0x660, 0x661, 0x662, 0x663, 0x664, 0x665, 0x666, 0x667, 0x668, 0x669]"

definition englishNumbers :: "16 word list" where
  "englishNumbers = [0x30, 0x31, 0x32, 0x33, 0x34, 0x35, 0x36, 0x37, 0x38, 0x39]"

definition replace_global :: "16 word \<Rightarrow> 16 word \<Rightarrow> jsstring \<Rightarrow> jsstring" where
  "replace_global pat rep s = map (\<lambda>c. if c = pat then rep else c) s"

function convert_from :: "nat \<Rightarrow> jsstring \<Rightarrow> jsstring" where
  "convert_from i result =
     (if i < length arabicNumbers
      then convert_from (i + 1) (replace_global (arabicNumbers ! i) (englishNumbers ! i) result)
      else result)"
  by pat_completeness auto
termination
  by (relation "measure (\<lambda>(i, result). length arabicNumbers - i)") auto

definition convertArabicToEnglishNumbers :: "jsstring \<Rightarrow> jsstring" where
  "convertArabicToEnglishNumbers input = convert_from 0 input"

text \<open>
  The claimed behaviour, written from the claim's words: an Arabic-Indic digit becomes
  the ASCII digit of the same value, any other code unit stays.
\<close>

definition is_arabic_digit :: "16 word \<Rightarrow> bool" where
  "is_arabic_digit c = (0x660 \<le> c \<and> c \<le> 0x669)"

definition ascii_digit_of :: "16 word \<Rightarrow> 16 word" where
  "ascii_digit_of c = (if is_arabic_digit c then c - 0x660 + 0x30 else c)"

text \<open>What the loop, entered at index \<open>i\<close>, does to one code unit.\<close>

definition subst_from :: "nat \<Rightarrow> 16 word \<Rightarrow> 16 word" where
  "subst_from i c =
     fold (\<lambda>(a, e) x. if x = a then e else x) (drop i (zip arabicNumbers englishNumbers)) c"

subsection \<open>sendToMakeWebhook\<close>

text \<open>
  The retry condition compares values of different JavaScript types, so the two types it
  meets are kept apart: \<open>js_not\<close> is the operator \<^verbatim>\<open>!\<close> (a string is falsy exactly when
  it is empty), \<open>js_strict_eq\<close> the operator \<^verbatim>\<open>===\<close>.
\<close>

datatype js_value = JBool bool | JString string

fun js_not :: "js_value \<Rightarrow> js_value" where
  "js_not (JBool b) = JBool (\<not> b)"
| "js_not (JString s) = JBool (s = [])"

fun js_strict_eq :: "js_value \<Rightarrow> js_value \<Rightarrow> bool" where
  "js_strict_eq (JBool a) (JBool b) = (a = b)"
| "js_strict_eq (JString a) (JString b) = (a = b)"
| "js_strict_eq a b = False"

text \<open>
  An error object has a name and a message. The message of the error thrown for a
  response that is not ok is a fixed text followed by the status; it is kept as
  \<open>HttpErrorMessage status\<close>. \<open>AbortMessage\<close> is the browser's message for an abort.
\<close>

datatype message = HttpErrorMessage nat | AbortMessage | Text string

record js_error =
  name :: string
  message :: message

text \<open>
  One POST to the webhook: how long the network takes to settle, in milliseconds, and
  what it settles with, a thrown error or a response (status and body text). The abort
  timer of the attempt fires after \<open>timeout\<close> milliseconds and makes the fetch throw an
  error named \<^verbatim>\<open>AbortError\<close>.
\<close>

record attempt =
  latency :: nat
  outcome :: "js_error + (nat \<times> string)"

definition maxRetries :: nat where
  "maxRetries = 2"

definition timeout :: nat where
  "timeout = 10000"

definition post :: "attempt \<Rightarrow> js_error + (nat \<times> string)" where
  "post a =
     (if timeout \<le> latency a
      then Inl \<lparr>name = ''AbortError'', message = AbortMessage\<rparr>
      else outcome a)"

text \<open>The \<^verbatim>\<open>try\<close> block: the value returned, or the error that reaches \<^verbatim>\<open>catch\<close>.\<close>

definition try_post :: "attempt \<Rightarrow> js_error + string" where
  "try_post a =
     (case post a of
        Inl e \<Rightarrow> Inl e
      | Inr (st, txt) \<Rightarrow>
          if 200 \<le> st \<and> st \<le> 299 then Inr txt
          else Inl \<lparr>name = ''Error'', message = HttpErrorMessage st\<rparr>)"

definition should_retry :: "nat \<Rightarrow> js_error \<Rightarrow> bool" where
  "should_retry retryCount e =
     (retryCount < maxRetries \<and> js_strict_eq (js_not (JString (name e))) (JString ''AbortError''))"

datatype webhook_result = Success string | Failure message

datatype event = Post nat | Wait nat

text \<open>
  \<open>env n\<close> is what the network does with the POST made at retry count \<open>n\<close>. The function
  returns its result and the POSTs and waits it made, in order.
\<close>

function sendToMakeWebhook :: "(nat \<Rightarrow> attempt) \<Rightarrow> nat \<Rightarrow> webhook_result \<times> event list" where
  "sendToMakeWebhook env retryCount =
     (case try_post (env retryCount) of
        Inr txt \<Rightarrow> (Success txt, [Post retryCount])
      | Inl e \<Rightarrow>
          if should_retry retryCount e
          then (case sendToMakeWebhook env (retryCount + 1) of
                  (r, evs) \<Rightarrow> (r, Post retryCount # Wait 2000 # evs))
          else (Failure (message e), [Post retryCount]))"
  by pat_completeness auto
termination
  by (relation "measure (\<lambda>(env, retryCount). maxRetries - retryCount)")
     (auto simp: should_retry_def)

section \<open>Auxiliary definitions\<close>

text \<open>
  Functions that only the statements and proofs use: storing a list of entries in one
  cache; changing the caches of one name in the cache storage; the URLs, without
  fragment, of all entries of a cache; its entries under a given URL; and whether
  \<^verbatim>\<open>cache.put\<close> accepts a request and a response.
\<close>

definition put_all :: "(request \<times> response) list \<Rightarrow> cache \<Rightarrow> cache" where
  "put_all kvs c = fold (\<lambda>(q, r). put_entry q r) kvs c"

definition on_cache :: "string \<Rightarrow> (cache \<Rightarrow> cache) \<Rightarrow> cache_storage \<Rightarrow> cache_storage" where
  "on_cache n g cs = map (\<lambda>(m, c). if m = n then (m, g c) else (m, c)) cs"

definition keys_of :: "cache \<Rightarrow> string list" where
  "keys_of c = map (\<lambda>item. cache_key (fst item)) c"

definition entries_under :: "string \<Rightarrow> cache \<Rightarrow> cache" where
  "entries_under u c = filter (\<lambda>(q, r). cache_key q = u) c"

definition storable :: "request \<Rightarrow> response \<Rightarrow> bool" where
  "storable q r = (valid_request q \<and> status r \<noteq> 206 \<and> \<not> vary_star r)"

text \<open>
  The static namespace is ready for the manifest when each of its entries under the URL
  of a manifest request is matched by that request, so that storing the manifest
  replaces it. This holds of an empty namespace and of one whose responses have no
  \<^verbatim>\<open>Vary\<close> header, and it still holds after the manifest has been stored.
\<close>

definition ready_for :: "request list \<Rightarrow> cache \<Rightarrow> bool" where
  "ready_for reqs c =
     list_all (\<lambda>item. list_all (\<lambda>m. cache_key (fst item) \<noteq> cache_key m \<or>
                                          request_matches m item) reqs) c"

text \<open>
  Concrete networks, states and requests for the examples: a network that is down, one
  that answers every request with status 200, one that answers with status 404, one
  that answers with status 206, one whose answers vary with every request header; the
  state of a browser that has no cache yet; the origin the site is served from.
\<close>

definition offline :: network where
  "offline req = Inl (TypeError ''Failed to fetch'')"

definition response_200 :: "string \<Rightarrow> response" where
  "response_200 b = \<lparr>status = 200, headers = [], body = b\<rparr>"

definition online :: network where
  "online req = Inr (response_200 (url req))"

definition not_found :: network where
  "not_found req = Inr \<lparr>status = 404, headers = [], body = ''Not Found''\<rparr>"

definition partial_content :: network where
  "partial_content req = Inr \<lparr>status = 206, headers = [], body = ''part''\<rparr>"

definition varying :: network where
  "varying req = Inr \<lparr>status = 200, headers = [(''vary'', ''Accept, *'')], body = url req\<rparr>"

definition empty_state :: sw_state where
  "empty_state = \<lparr>caches = [], fetched = []\<rparr>"

definition site :: string where
  "site = ''https://288-flashlight.vercel.app''"

definition GET :: "string \<Rightarrow> request" where
  "GET u = \<lparr>url = u, http_method = ''GET'', cache_mode = ''default'', request_headers = []\<rparr>"

definition stylesheet_request :: request where
  "stylesheet_request = GET ''https://288-flashlight.vercel.app/styles.css?v=2.1.0&t=1734705600''"

definition stylesheet_top_request :: request where
  "stylesheet_top_request =
     GET ''https://288-flashlight.vercel.app/styles.css?v=2.1.0&t=1734705600#top''"

definition pixel_request :: request where
  "pixel_request = GET ''https://analytics.tiktok.com/i18n/pixel/events.js?sdkid=C0&lib=ttq''"

definition image_request :: request where
  "image_request = GET ''https://288-flashlight.vercel.app/public/images/police-288-box.png''"

definition page_request :: request where
  "page_request = GET ''https://288-flashlight.vercel.app/offers''"

definition failing_webhook :: "nat \<Rightarrow> attempt" where
  "failing_webhook n = \<lparr>latency = 150, outcome = Inr (500, ''Internal Server Error'')\<rparr>"

section \<open>Properties of the cache storage\<close>


lemma caches_open_keys: "set (caches_keys (caches_open n cs)) = insert n (set (caches_keys cs))"
  by (auto simp: caches_open_def caches_keys_def)

lemma map_of_None_keys: "(map_of cs n = None) = (n \<notin> set (caches_keys cs))"
  by (simp add: map_of_eq_None_iff caches_keys_def)

lemma entries_caches_open: "entries (caches_open n cs) m = entries cs m"
proof (cases "n \<in> set (caches_keys cs)")
  case True
  then show ?thesis by (simp add: caches_open_def)
next
  case False
  then have "map_of cs n = None" by (simp add: map_of_None_keys)
  then show ?thesis
    using False by (auto simp: caches_open_def entries_def map_add_def split: option.splits)
qed



lemma map_of_on_cache:
  "map_of (on_cache n g cs) m = (if m = n then map_option g (map_of cs n) else map_of cs m)"
  by (induction cs) (auto simp: on_cache_def)

lemma entries_on_cache:
  "entries (on_cache n g cs) m =
     (if m = n \<and> n \<in> set (caches_keys cs) then g (entries cs n) else entries cs m)"
  using map_of_None_keys[of cs n]
  by (auto simp: entries_def map_of_on_cache split: option.splits)

text \<open>
  \<^verbatim>\<open>cache.put\<close> stores the pair exactly when the request is a GET over http or https
  and the response has neither status 206 nor a \<^verbatim>\<open>Vary\<close> header that names \<^verbatim>\<open>*\<close>.
\<close>

lemma put_storable:
  "put q r c = (if storable q r then Inr (put_entry q r c)
                else Inl (TypeError ''Request or response not supported''))"
  by (simp add: put_def storable_def)

lemma cache_put_on_cache:
  "cache_put n q r cs = (if storable q r then on_cache n (put_entry q r) cs else cs)"
  by (induction cs) (auto simp: cache_put_def on_cache_def put_storable)

lemma entries_put_opened:
  "entries (cache_put n q r (caches_open n cs)) m =
     (if m = n \<and> storable q r then put_entry q r (entries cs n) else entries cs m)"
  by (simp add: cache_put_on_cache entries_on_cache caches_open_keys entries_caches_open)

text \<open>
  A request matches only entries under its own URL, and it matches the entry it was
  stored with.
\<close>

lemma keys_of_simps [simp]:
  "keys_of [] = []"
  "keys_of (item # c) = cache_key (fst item) # keys_of c"
  "keys_of (c @ c') = keys_of c @ keys_of c'"
  by (simp_all add: keys_of_def)

lemma in_keys_of: "item \<in> set c \<Longrightarrow> cache_key (fst item) \<in> set (keys_of c)"
  by (auto simp: keys_of_def)

lemma matches_key: "request_matches q item \<Longrightarrow> cache_key q = cache_key (fst item)"
  by (cases item) (simp add: request_matches_def)

lemma matches_self:
  "http_method q = ''GET'' \<Longrightarrow> \<not> vary_star r \<Longrightarrow> request_matches q (q, r)"
  by (auto simp: request_matches_def vary_star_def list_all_iff list_ex_iff)

lemma entries_under_append [simp]:
  "entries_under u (c @ c') = entries_under u c @ entries_under u c'"
  by (simp add: entries_under_def)



text \<open>
  Storing entries with pairwise different URLs: the old entries that one of the requests
  matches go, the new ones are appended, and the batch does not fail. Storing them a
  second time changes nothing.
\<close>

lemma put_all_snoc: "put_all (kvs @ [(q, r)]) c = put_entry q r (put_all kvs c)"
  by (simp add: put_all_def)

lemma put_all_distinct:
  "distinct (keys_of kvs) \<Longrightarrow>
   put_all kvs c =
     filter (\<lambda>item. \<not> list_ex (\<lambda>kv. request_matches (fst kv) item) kvs) c @ kvs"
proof (induction kvs rule: rev_induct)
  case Nil
  then show ?case by (simp add: put_all_def)
next
  case (snoc kv kvs)
  obtain q r where kv: "kv = (q, r)" by (cases kv)
  from snoc.prems have d: "distinct (keys_of kvs)"
    and nin: "cache_key q \<notin> set (keys_of kvs)"
    by (auto simp: kv)
  have keep: "filter (\<lambda>item. \<not> request_matches q item) kvs = kvs"
    using nin matches_key[of q] in_keys_of[of _ kvs] by (fastforce simp: filter_id_conv)
  have "put_all (kvs @ [kv]) c = put_entry q r (put_all kvs c)"
    by (simp add: kv put_all_snoc)
  also have "\<dots> = filter (\<lambda>item. \<not> request_matches q item)
        (filter (\<lambda>item. \<not> list_ex (\<lambda>kv. request_matches (fst kv) item) kvs) c) @ kvs @ [(q, r)]"
    by (simp add: snoc.IH[OF d] put_entry_def keep)
  also have "filter (\<lambda>item. \<not> request_matches q item)
        (filter (\<lambda>item. \<not> list_ex (\<lambda>kv. request_matches (fst kv) item) kvs) c)
      = filter (\<lambda>item. \<not> list_ex (\<lambda>kv. request_matches (fst kv) item) (kvs @ [kv])) c"
    by (auto simp: kv list_ex_iff intro!: filter_cong)
  finally show ?case by (simp add: kv)
qed



section \<open>Properties of cache.addAll and the manifest\<close>

lemma fetch_all_requests: "fetch_all net reqs = Inr kvs \<Longrightarrow> map fst kvs = reqs"
  by (induction reqs arbitrary: kvs) (auto split: sum.splits if_splits)

lemma fetch_all_responses:
  "fetch_all net reqs = Inr kvs \<Longrightarrow> (q, r) \<in> set kvs \<Longrightarrow>
   net q = Inr r \<and> ok r \<and> status r \<noteq> 206 \<and> \<not> vary_star r"
  by (induction reqs arbitrary: kvs) (auto split: sum.splits if_splits)


lemma fetched_keys: "fetch_all net reqs = Inr kvs \<Longrightarrow> keys_of kvs = map cache_key reqs"
  using fetch_all_requests[of net reqs kvs] by (auto simp: keys_of_def)

lemma fetched_match_themselves:
  assumes "fetch_all net reqs = Inr kvs" and "list_all valid_request reqs"
  shows "list_all (\<lambda>kv. request_matches (fst kv) kv) kvs"
proof -
  have "request_matches (fst kv) kv" if "kv \<in> set kvs" for kv
  proof -
    obtain q r where kv: "kv = (q, r)" by (cases kv)
    from that fetch_all_requests[OF assms(1)] have "q \<in> set reqs"
      by (force simp: kv)
    with assms(2) have "http_method q = ''GET''"
      by (simp add: list_all_iff valid_request_def)
    moreover from fetch_all_responses[OF assms(1)] that have "\<not> vary_star r"
      by (simp add: kv)
    ultimately show ?thesis by (simp add: kv matches_self)
  qed
  then show ?thesis by (simp add: list_all_iff)
qed





lemma ready_for_no_vary:
  "list_all (\<lambda>item. http_method (fst item) = ''GET'' \<and> vary_fields (snd item) = []) c \<Longrightarrow>
   ready_for reqs c"
  by (auto simp: ready_for_def list_all_iff request_matches_def)





lemma ready_for_populated:
  assumes f: "fetch_all net reqs = Inr kvs" and v: "list_all valid_request reqs"
    and d: "distinct (map cache_key reqs)" and rdy: "ready_for reqs c"
  shows "ready_for reqs (put_all kvs c)"
proof -
  have dk: "distinct (keys_of kvs)" using fetched_keys[OF f] d by simp
  have "request_matches m item"
    if i: "item \<in> set kvs" and m: "m \<in> set reqs" and k: "cache_key (fst item) = cache_key m"
    for item m
  proof -
    from i fetch_all_requests[OF f] have "fst item \<in> set reqs" by force
    with d m k have "fst item = m"
      by (auto simp: distinct_map dest: inj_onD)
    moreover from fetched_match_themselves[OF f v] i have "request_matches (fst item) item"
      by (simp add: list_all_iff)
    ultimately show ?thesis by simp
  qed
  then have "ready_for reqs kvs"
    by (auto simp: ready_for_def list_all_iff)
  moreover from rdy have "ready_for reqs
      (filter (\<lambda>item. \<not> list_ex (\<lambda>kv. request_matches (fst kv) item) kvs) c)"
    by (auto simp: ready_for_def list_all_iff)
  ultimately show ?thesis
    by (simp add: put_all_distinct[OF dk] ready_for_def)
qed

text \<open>
  The manifest requests are GETs over http or https, and no two of them have the same
  URL, whatever the origin: a resolved root-relative URL ends as its path does, and
  neither of the two absolute URLs ends that way.
\<close>

lemma is_originD:
  assumes "is_origin origin"
  shows "(prefix ''http://'' origin \<or> prefix ''https://'' origin) \<and> CHR ''#'' \<notin> set origin"
proof (cases "prefix ''https://'' origin")
  case True
  then obtain a where o: "origin = ''https://'' @ a" by (auto simp: prefix_def)
  then have "authority_of origin = a" by (simp add: authority_of_def)
  with assms have "CHR ''#'' \<notin> set a" by (auto simp: is_origin_def list_all_iff)
  with True show ?thesis by (simp add: o)
next
  case False
  with assms have p: "prefix ''http://'' origin"
    by (auto simp: is_origin_def authority_of_def split: if_splits)
  then obtain a where o: "origin = ''http://'' @ a" by (auto simp: prefix_def)
  with False have "authority_of origin = a" by (simp add: authority_of_def)
  with assms have "CHR ''#'' \<notin> set a" by (auto simp: is_origin_def list_all_iff)
  with p show ?thesis by (simp add: o)
qed

lemma origin_scheme: "is_origin origin \<Longrightarrow> http_scheme (origin @ u)"
  using is_originD[of origin] by (auto simp: http_scheme_def protocol_def prefix_def)


lemma manifest_valid: "is_origin origin \<Longrightarrow> list_all valid_request (manifest_requests origin)"
  by (simp add: manifest_requests_def STATIC_CACHE_URLS_def new_Request_def valid_request_def
        resolve_def origin_scheme)
     (simp add: http_scheme_def protocol_def)





section \<open>Install and updateCache\<close>










text \<open>The promise of the install listener is never rejected.\<close>

lemma install_always_fulfils: "fst (fst (install origin net st)) = Fulfilled"
  by (simp add: install_def Let_def split: prod.splits sum.splits)

text \<open>
  Claim C6. The claim says that installation aborts when a manifest URL cannot be
  fetched. On a network that is down, \<^verbatim>\<open>cache.addAll\<close> rejects, the \<^verbatim>\<open>.catch\<close> of the
  listener logs the error, and the promise handed to \<^verbatim>\<open>waitUntil\<close> is fulfilled: the
  installation completes with both namespaces created and empty, and without the call
  of \<^verbatim>\<open>skipWaiting\<close>.
\<close>


theorem install_fulfils_when_manifest_fetch_fails:
  "fetch_all offline (manifest_requests site) = Inl (TypeError ''Failed to fetch'') \<and>
   install site offline empty_state =
     ((Fulfilled, False),
      \<lparr>caches = [(''police288-static-v2.1.0'', []), (''police288-dynamic-v2.1.0'', [])],
       fetched = manifest_requests site\<rparr>)"
proof -
  have f: "fetch_all offline (manifest_requests site) = Inl (TypeError ''Failed to fetch'')"
    by (simp add: manifest_requests_def STATIC_CACHE_URLS_def offline_def)
  have o: "is_origin site"
    by code_simp
  show ?thesis
    using manifest_valid[OF o]
    by (simp add: f install_def cache_addAll_def Let_def empty_state_def caches_open_def
          caches_keys_def CACHE_STATIC_NAME_def CACHE_DYNAMIC_NAME_def)
qed

section \<open>Activate\<close>

lemma fold_delete:
  "fold (\<lambda>n acc. if P n then caches_delete n acc else acc) ns cs
     = filter (\<lambda>(n, c). \<not> (P n \<and> n \<in> set ns)) cs"
proof (induction ns arbitrary: cs)
  case Nil
  then show ?case by simp
next
  case (Cons a ns)
  show ?case
    by (auto simp: Cons.IH caches_delete_def intro!: filter_cong)
qed

lemma activate_filter: "activate cs = filter (\<lambda>(n, c). \<not> is_old_cache n) cs"
  unfolding activate_def fold_delete caches_keys_def
  by (rule filter_cong) force+

text \<open>
  Claim C2. After activation no namespace is left whose name starts with
  \<^verbatim>\<open>police288-\<close> and is neither the current static nor the current dynamic name; a
  namespace without the prefix is in the storage afterwards exactly when it was before,
  with the same entries; and the storage as a whole is the old one with the outdated
  namespaces filtered out, so the two current namespaces stay as they are too.
\<close>


theorem activate_deletes_old_caches:
  "(\<forall>n. prefix ''police288-'' n \<and> n \<noteq> ''police288-static-v2.1.0'' \<and>
        n \<noteq> ''police288-dynamic-v2.1.0'' \<longrightarrow> n \<notin> set (caches_keys (activate cs))) \<and>
   (\<forall>n c. \<not> prefix ''police288-'' n \<longrightarrow> ((n, c) \<in> set (activate cs)) = ((n, c) \<in> set cs)) \<and>
   activate cs =
     filter (\<lambda>(n, c). n = ''police288-static-v2.1.0'' \<or> n = ''police288-dynamic-v2.1.0'' \<or>
                        \<not> prefix ''police288-'' n) cs"
proof -
  have f: "activate cs =
     filter (\<lambda>(n, c). n = ''police288-static-v2.1.0'' \<or> n = ''police288-dynamic-v2.1.0'' \<or>
                        \<not> prefix ''police288-'' n) cs"
    unfolding activate_filter is_old_cache_def CACHE_STATIC_NAME_def CACHE_DYNAMIC_NAME_def
    by (rule filter_cong) auto
  show ?thesis
    unfolding f by (auto simp: caches_keys_def)
qed

text \<open>
  Activating version 2.1.0 after 2.0.0: the two 2.0.0 namespaces go, the 2.1.0 ones and
  another application's cache stay.
\<close>


theorem activate_deletes_old_caches_witness:
  "prefix ''police288-'' ''police288-static-v2.0.0'' \<and>
   \<not> prefix ''police288-'' ''workbox-precache'' \<and>
   activate
     [(''police288-static-v2.0.0'',
         [(GET ''https://288-flashlight.vercel.app/'', response_200 ''old'')]),
      (''police288-dynamic-v2.0.0'', []),
      (''workbox-precache'',
         [(GET ''https://288-flashlight.vercel.app/app.js'', response_200 ''js'')]),
      (''police288-static-v2.1.0'',
         [(GET ''https://288-flashlight.vercel.app/'', response_200 ''new'')]),
      (''police288-dynamic-v2.1.0'', [])] =
     [(''workbox-precache'',
         [(GET ''https://288-flashlight.vercel.app/app.js'', response_200 ''js'')]),
      (''police288-static-v2.1.0'',
         [(GET ''https://288-flashlight.vercel.app/'', response_200 ''new'')]),
      (''police288-dynamic-v2.1.0'', [])] \<and>
   activate
     [(''police288-static-v2.0.0'', []), (''police288-dynamic-v2.0.0'', []),
      (''police288-static-v2.1.0'', []), (''police288-dynamic-v2.1.0'', [])] =
     [(''police288-static-v2.1.0'', []), (''police288-dynamic-v2.1.0'', [])]"
  using activate_deletes_old_caches[of
     "[(''police288-static-v2.0.0'',
         [(GET ''https://288-flashlight.vercel.app/'', response_200 ''old'')]),
      (''police288-dynamic-v2.0.0'', []),
      (''workbox-precache'',
         [(GET ''https://288-flashlight.vercel.app/app.js'', response_200 ''js'')]),
      (''police288-static-v2.1.0'',
         [(GET ''https://288-flashlight.vercel.app/'', response_200 ''new'')]),
      (''police288-dynamic-v2.1.0'', [])]"]
    activate_deletes_old_caches[of
     "[(''police288-static-v2.0.0'', []), (''police288-dynamic-v2.0.0'', []),
      (''police288-static-v2.1.0'', []), (''police288-dynamic-v2.1.0'', [])]"]
  by simp

section \<open>The fetch listener\<close>

text \<open>
  The first manifest entry is \<^verbatim>\<open>'/'\<close>. Without its first slash it is the empty string,
  which every URL includes, so isStaticAsset holds of every URL and the listener hands
  every request it answers to handleStaticAsset. The branches for images, for external
  APIs and for page documents are never taken.
\<close>


lemma isStaticAsset_always: "isStaticAsset u"
  by (simp add: isStaticAsset_def STATIC_CACHE_URLS_def js_includes_def replace_slash_def)

lemma fetch_listener_static:
  "http_method req = ''GET'' \<Longrightarrow> prefix ''http'' (protocol (url req)) \<Longrightarrow>
   fetch_listener origin net req st = Some (handleStaticAsset net req st)"
  by (simp add: fetch_listener_def isStaticAsset_always)

section \<open>The handlers\<close>

lemma handleStaticAsset_hit:
  "caches_match (caches st) req = Some c \<Longrightarrow>
   handleStaticAsset net req st = (Inr (Some c), st)"
  by (simp add: handleStaticAsset_def)

lemma handleStaticAsset_miss_response:
  "caches_match (caches st) req = None \<Longrightarrow> net req = Inr r \<Longrightarrow>
   handleStaticAsset net req st =
     (Inr (Some r),
      st\<lparr>fetched := fetched st @ [req],
         caches := (if ok r
                    then cache_put CACHE_STATIC_NAME req r
                           (caches_open CACHE_STATIC_NAME (caches st))
                    else caches_open CACHE_STATIC_NAME (caches st))\<rparr>)"
  by (simp add: handleStaticAsset_def fetch_def Let_def)

lemma handleStaticAsset_miss_error:
  "caches_match (caches st) req = None \<Longrightarrow> net req = Inl e \<Longrightarrow>
   handleStaticAsset net req st = (Inr None, st\<lparr>fetched := fetched st @ [req]\<rparr>)"
  by (simp add: handleStaticAsset_def fetch_def)

lemma handleImageRequest_miss_response:
  "caches_match (caches st) req = None \<Longrightarrow> net req = Inr r \<Longrightarrow>
   handleImageRequest net req st =
     (Inr (Some r),
      st\<lparr>fetched := fetched st @ [req],
         caches := (if ok r
                    then cache_put CACHE_DYNAMIC_NAME req r
                           (caches_open CACHE_DYNAMIC_NAME (caches st))
                    else caches st)\<rparr>)"
  by (simp add: handleImageRequest_def fetch_def Let_def)

lemma handleImageRequest_placeholder:
  "caches_match (caches st) req = None \<Longrightarrow> net req = Inl e \<Longrightarrow>
   handleImageRequest net req st = (Inr (Some placeholder), st\<lparr>fetched := fetched st @ [req]\<rparr>)"
  by (simp add: handleImageRequest_def fetch_def)

lemma placeholder_well_formed:
  "prefix ''<svg'' (body placeholder) \<and>
   headers placeholder = [(''Content-Type'', ''image/svg+xml'')] \<and> ok placeholder"
  by code_simp

lemma handleAPIRequest_network_only:
  "handleAPIRequest net req st =
     ((case net req of Inr r \<Rightarrow> Inr (Some r) | Inl e \<Rightarrow> Inl e),
      st\<lparr>fetched := fetched st @ [req]\<rparr>)"
  by (simp add: handleAPIRequest_def fetch_def split: sum.splits)

lemma handleHTMLRequest_response:
  "net req = Inr r \<Longrightarrow>
   handleHTMLRequest origin net req st =
     (Inr (Some r),
      st\<lparr>fetched := fetched st @ [req],
         caches := (if ok r
                    then cache_put CACHE_DYNAMIC_NAME req r
                           (caches_open CACHE_DYNAMIC_NAME (caches st))
                    else caches st)\<rparr>)"
  by (simp add: handleHTMLRequest_def fetch_def Let_def)

lemma handleHTMLRequest_error:
  "net req = Inl e \<Longrightarrow>
   handleHTMLRequest origin net req st =
     (Inr (case caches_match (caches st) req of
             Some c \<Rightarrow> Some c
           | None \<Rightarrow> caches_match (caches st) (new_Request origin ''/index.html'' ''default'')),
      st\<lparr>fetched := fetched st @ [req]\<rparr>)"
  by (simp add: handleHTMLRequest_def fetch_def split: option.splits)

text \<open>Facts about the example requests and responses.\<close>

lemma no_vary: "\<not> vary_star (response_200 b)"
  by (simp add: response_200_def vary_star_def vary_fields_def get_header_def)

lemma response_200_ok: "ok (response_200 b)"
  by (simp add: response_200_def ok_def)

lemma GET_simps [simp]:
  "url (GET u) = u" "http_method (GET u) = ''GET''" "request_headers (GET u) = []"
  by (simp_all add: GET_def)

lemma storable_GET:
  "http_scheme u \<Longrightarrow> storable (GET u) (response_200 b)"
  by (simp add: storable_def valid_request_def no_vary) (simp add: response_200_def)

lemma empty_miss: "caches_match (caches empty_state) req = None"
  by (simp add: empty_state_def)

text \<open>
  Claim C1, as the code has it. handleStaticAsset returns the cached entry when there is
  one, without a fetch. Otherwise it fetches; a response is returned as it is, and it is
  stored in the static namespace, replacing what the request matches there, only when
  it is ok, and then exactly when the cache accepts the pair (the unawaited
  \<^verbatim>\<open>cache.put\<close> rejects a response with status 206 or with \<^verbatim>\<open>*\<close> in \<^verbatim>\<open>Vary\<close>); no other
  namespace changes. When the fetch throws, the handler catches the error and resolves
  with the result of a second cache lookup, which is \<^verbatim>\<open>undefined\<close> when the cache has
  no entry for the request: the handler does not reject.
\<close>

theorem handleStaticAsset_cache_first:
  "(caches_match (caches st) req = Some c \<longrightarrow>
      handleStaticAsset net req st = (Inr (Some c), st)) \<and>
   (caches_match (caches st) req = None \<and> net req = Inr r \<longrightarrow>
      fst (handleStaticAsset net req st) = Inr (Some r) \<and>
      fetched (snd (handleStaticAsset net req st)) = fetched st @ [req] \<and>
      entries (caches (snd (handleStaticAsset net req st))) CACHE_STATIC_NAME =
        (if ok r \<and> storable req r
         then put_entry req r (entries (caches st) CACHE_STATIC_NAME)
         else entries (caches st) CACHE_STATIC_NAME) \<and>
      (\<forall>n. n \<noteq> CACHE_STATIC_NAME \<longrightarrow>
         entries (caches (snd (handleStaticAsset net req st))) n = entries (caches st) n)) \<and>
   (caches_match (caches st) req = None \<and> net req = Inl e \<longrightarrow>
      handleStaticAsset net req st = (Inr None, st\<lparr>fetched := fetched st @ [req]\<rparr>))"
  by (simp add: handleStaticAsset_hit handleStaticAsset_miss_response
        handleStaticAsset_miss_error entries_put_opened entries_caches_open)

text \<open>
  Instances: a request with a fragment is answered from the entry stored without it; an
  ok response is stored; responses with status 404, with status 206 and with \<^verbatim>\<open>*\<close> in
  \<^verbatim>\<open>Vary\<close> are returned and not stored; with the network down and nothing cached the
  handler resolves with \<^verbatim>\<open>undefined\<close>.
\<close>

theorem handleStaticAsset_cache_first_witness:
  "handleStaticAsset offline stylesheet_top_request
      \<lparr>caches = [(CACHE_STATIC_NAME, [(stylesheet_request, response_200 ''body {}'')])],
       fetched = []\<rparr> =
     (Inr (Some (response_200 ''body {}'')),
      \<lparr>caches = [(CACHE_STATIC_NAME, [(stylesheet_request, response_200 ''body {}'')])],
       fetched = []\<rparr>) \<and>
   fst (handleStaticAsset online stylesheet_request empty_state) =
     Inr (Some (response_200 (url stylesheet_request))) \<and>
   entries (caches (snd (handleStaticAsset online stylesheet_request empty_state)))
       CACHE_STATIC_NAME =
     [(stylesheet_request, response_200 (url stylesheet_request))] \<and>
   entries (caches (snd (handleStaticAsset not_found stylesheet_request empty_state)))
       CACHE_STATIC_NAME = [] \<and>
   entries (caches (snd (handleStaticAsset partial_content stylesheet_request empty_state)))
       CACHE_STATIC_NAME = [] \<and>
   entries (caches (snd (handleStaticAsset varying stylesheet_request empty_state)))
       CACHE_STATIC_NAME = [] \<and>
   handleStaticAsset offline stylesheet_request empty_state =
     (Inr None, \<lparr>caches = [], fetched = [stylesheet_request]\<rparr>)"
proof -
  let ?warm = "\<lparr>caches = [(CACHE_STATIC_NAME, [(stylesheet_request, response_200 ''body {}'')])],
                fetched = []\<rparr>"
  let ?r404 = "\<lparr>status = 404, headers = [], body = ''Not Found''\<rparr>"
  let ?r206 = "\<lparr>status = 206, headers = [], body = ''part''\<rparr>"
  let ?rvary = "\<lparr>status = 200, headers = [(''vary'', ''Accept, *'')],
                 body = ''https://288-flashlight.vercel.app/styles.css?v=2.1.0&t=1734705600''\<rparr>"
  have hit: "caches_match (caches ?warm) stylesheet_top_request = Some (response_200 ''body {}'')"
    by (simp add: cache_match_def request_matches_def cache_key_def stylesheet_request_def
          stylesheet_top_request_def response_200_def vary_fields_def get_header_def)
  have miss: "caches_match (caches empty_state) stylesheet_request = None"
    by (rule empty_miss)
  have none: "entries (caches empty_state) CACHE_STATIC_NAME = []"
    by (simp add: empty_state_def entries_def)
  have up: "online stylesheet_request = Inr (response_200 (url stylesheet_request))"
    by (simp add: online_def)
  have nf: "not_found stylesheet_request = Inr ?r404"
    by (simp add: not_found_def)
  have pc: "partial_content stylesheet_request = Inr ?r206"
    by (simp add: partial_content_def)
  have va: "varying stylesheet_request = Inr ?rvary"
    by (simp add: varying_def stylesheet_request_def)
  have down: "offline stylesheet_request = Inl (TypeError ''Failed to fetch'')"
    by (simp add: offline_def)
  have s200: "storable stylesheet_request (response_200 (url stylesheet_request))"
    by (simp add: stylesheet_request_def storable_GET http_scheme_def protocol_def)
  have s206: "\<not> storable stylesheet_request ?r206"
    by (simp add: storable_def)
  have svary: "\<not> storable stylesheet_request ?rvary"
    by code_simp
  have bad: "\<not> ok ?r404"
    by (simp add: ok_def)
  have fresh: "put_entry stylesheet_request (response_200 (url stylesheet_request)) [] =
      [(stylesheet_request, response_200 (url stylesheet_request))]"
    by (simp add: put_entry_def)
  show ?thesis
    using handleStaticAsset_cache_first[of ?warm stylesheet_top_request "response_200 ''body {}''" offline]
      handleStaticAsset_cache_first[of empty_state stylesheet_request _ online
         "response_200 (url stylesheet_request)"]
      handleStaticAsset_cache_first[of empty_state stylesheet_request _ not_found ?r404]
      handleStaticAsset_cache_first[of empty_state stylesheet_request _ partial_content ?r206]
      handleStaticAsset_cache_first[of empty_state stylesheet_request _ varying ?rvary]
      handleStaticAsset_cache_first[of empty_state stylesheet_request _ offline _
         "TypeError ''Failed to fetch''"]
      hit miss up nf pc va down
    by (simp add: none s200 s206 svary bad fresh response_200_ok) (simp add: empty_state_def)
qed

text \<open>
  Claim C1, as it is stated, says that the failure is propagated when the fetch throws
  and nothing is cached. For the stylesheet of the manifest, an empty cache storage and
  a network that is down, the handler resolves with \<^verbatim>\<open>undefined\<close> instead.
\<close>


theorem handleStaticAsset_swallows_failure:
  "isStaticAsset (url stylesheet_request) \<and>
   caches_match (caches empty_state) stylesheet_request = None \<and>
   offline stylesheet_request = Inl (TypeError ''Failed to fetch'') \<and>
   handleStaticAsset offline stylesheet_request empty_state =
     (Inr None, \<lparr>caches = [], fetched = [stylesheet_request]\<rparr>) \<and>
   fst (handleStaticAsset offline stylesheet_request empty_state) \<noteq>
     Inl (TypeError ''Failed to fetch'')"
  by (simp add: isStaticAsset_always handleStaticAsset_miss_error empty_miss offline_def)
     (simp add: empty_state_def)

text \<open>
  Claim C9. When the fetch of a request resolves with a response that is not ok, each of
  the three caching handlers returns that response and leaves the entries of every
  namespace as they were. The two cache-first handlers fetch only when no cache has an
  entry for the request. (handleStaticAsset opens the static namespace before it looks
  at the response, which creates it, empty, when it did not exist.)
\<close>


theorem not_ok_response_passed_through:
  assumes "net req = Inr r" and "\<not> ok r"
  shows
    "(caches_match (caches st) req = None \<longrightarrow>
        fst (handleStaticAsset net req st) = Inr (Some r) \<and>
        fetched (snd (handleStaticAsset net req st)) = fetched st @ [req] \<and>
        (\<forall>n. entries (caches (snd (handleStaticAsset net req st))) n = entries (caches st) n)) \<and>
     (caches_match (caches st) req = None \<longrightarrow>
        fst (handleImageRequest net req st) = Inr (Some r) \<and>
        fetched (snd (handleImageRequest net req st)) = fetched st @ [req] \<and>
        (\<forall>n. entries (caches (snd (handleImageRequest net req st))) n = entries (caches st) n)) \<and>
     (fst (handleHTMLRequest origin net req st) = Inr (Some r) \<and>
        fetched (snd (handleHTMLRequest origin net req st)) = fetched st @ [req] \<and>
        (\<forall>n. entries (caches (snd (handleHTMLRequest origin net req st))) n =
              entries (caches st) n))"
  using assms
  by (simp add: handleStaticAsset_miss_response handleImageRequest_miss_response
        handleHTMLRequest_response entries_caches_open)

theorem not_ok_response_passed_through_witness:
  "fst (handleStaticAsset not_found stylesheet_request empty_state) =
     Inr (Some \<lparr>status = 404, headers = [], body = ''Not Found''\<rparr>) \<and>
   entries (caches (snd (handleStaticAsset not_found stylesheet_request empty_state)))
     CACHE_STATIC_NAME = [] \<and>
   fst (handleImageRequest not_found image_request empty_state) =
     Inr (Some \<lparr>status = 404, headers = [], body = ''Not Found''\<rparr>) \<and>
   entries (caches (snd (handleImageRequest not_found image_request empty_state)))
     CACHE_DYNAMIC_NAME = [] \<and>
   fst (handleHTMLRequest site not_found page_request empty_state) =
     Inr (Some \<lparr>status = 404, headers = [], body = ''Not Found''\<rparr>) \<and>
   entries (caches (snd (handleHTMLRequest site not_found page_request empty_state)))
     CACHE_DYNAMIC_NAME = []"
proof -
  let ?r = "\<lparr>status = 404, headers = [], body = ''Not Found''\<rparr>"
  have bad: "\<not> ok ?r" by (simp add: ok_def)
  have none: "entries (caches empty_state) n = []" for n
    by (simp add: empty_state_def entries_def)
  have a: "not_found stylesheet_request = Inr ?r" by (simp add: not_found_def)
  have b: "not_found image_request = Inr ?r" by (simp add: not_found_def)
  have c: "not_found page_request = Inr ?r" by (simp add: not_found_def)
  show ?thesis
    using not_ok_response_passed_through[of not_found stylesheet_request ?r empty_state site, OF a bad]
      not_ok_response_passed_through[of not_found image_request ?r empty_state site, OF b bad]
      not_ok_response_passed_through[of not_found page_request ?r empty_state site, OF c bad]
    by (simp add: empty_miss none)
qed

section \<open>Requests for images, external APIs and page documents\<close>

text \<open>
  What handleStaticAsset does with the first request for a URL on an empty cache storage
  and a network that answers with status 200, and the lookup of the second request.
\<close>

lemma first_store:
  assumes "http_scheme u"
  shows "handleStaticAsset online (GET u) empty_state =
     (Inr (Some (response_200 u)),
      \<lparr>caches = [(''police288-static-v2.1.0'', [(GET u, response_200 u)])],
       fetched = [GET u]\<rparr>)"
proof -
  have up: "online (GET u) = Inr (response_200 u)"
    by (simp add: online_def)
  show ?thesis
    using storable_GET[OF assms, of u]
    by (simp add: handleStaticAsset_miss_response[of empty_state "GET u" online, OF empty_miss up]
          response_200_ok cache_put_on_cache)
       (simp add: empty_state_def caches_open_def caches_keys_def on_cache_def put_entry_def
          CACHE_STATIC_NAME_def)
qed

lemma second_hit:
  "caches_match [(n, [(GET u, response_200 b)])] (GET u) = Some (response_200 b)"
  by (simp add: cache_match_def matches_self no_vary)

text \<open>
  Claim C3. The claim says that a request to an external API never reads or writes a
  cache and that two requests in a row both reach the network. The URL of the TikTok
  pixel script is an API URL, has no static or image extension and includes no manifest
  entry but the first. With a network that answers with status 200, the listener stores
  the response in the static namespace at the first request and answers the second one
  from that entry: the network is asked once.
\<close>


theorem external_api_request_served_from_cache:
  "isAPIRequest (url pixel_request) \<and> \<not> isImageRequest (url pixel_request) \<and>
   \<not> has_extension [''css'', ''js'', ''woff2'', ''woff'', ''ttf''] (url pixel_request) \<and>
   \<not> list_ex (\<lambda>staticUrl. js_includes (url pixel_request) (replace_slash staticUrl))
        (tl STATIC_CACHE_URLS) \<and>
   fetch_listener site online pixel_request empty_state =
     Some (Inr (Some (response_200 (url pixel_request))),
           \<lparr>caches = [(''police288-static-v2.1.0'',
                        [(pixel_request, response_200 (url pixel_request))])],
            fetched = [pixel_request]\<rparr>) \<and>
   fetch_listener site online pixel_request
       \<lparr>caches = [(''police288-static-v2.1.0'',
                    [(pixel_request, response_200 (url pixel_request))])],
        fetched = [pixel_request]\<rparr> =
     Some (Inr (Some (response_200 (url pixel_request))),
           \<lparr>caches = [(''police288-static-v2.1.0'',
                        [(pixel_request, response_200 (url pixel_request))])],
            fetched = [pixel_request]\<rparr>)"
proof -
  have api: "isAPIRequest (url pixel_request)"
    by code_simp
  have noimg: "\<not> isImageRequest (url pixel_request)"
    by code_simp
  have other: "\<not> has_extension [''css'', ''js'', ''woff2'', ''woff'', ''ttf''] (url pixel_request) \<and>
     \<not> list_ex (\<lambda>staticUrl. js_includes (url pixel_request) (replace_slash staticUrl))
        (tl STATIC_CACHE_URLS)"
    by code_simp
  have get: "http_method pixel_request = ''GET''"
    and http: "prefix ''http'' (protocol (url pixel_request))"
    and scheme: "http_scheme (url pixel_request)"
    by (simp_all add: pixel_request_def protocol_def http_scheme_def)
  have g: "pixel_request = GET (url pixel_request)"
    by (simp add: pixel_request_def)
  have first: "handleStaticAsset online pixel_request empty_state =
     (Inr (Some (response_200 (url pixel_request))),
           \<lparr>caches = [(''police288-static-v2.1.0'',
                        [(pixel_request, response_200 (url pixel_request))])],
            fetched = [pixel_request]\<rparr>)"
    using first_store[OF scheme] g by simp
  have second: "handleStaticAsset online pixel_request
       \<lparr>caches = [(''police288-static-v2.1.0'',
                    [(pixel_request, response_200 (url pixel_request))])],
        fetched = [pixel_request]\<rparr> =
     (Inr (Some (response_200 (url pixel_request))),
           \<lparr>caches = [(''police288-static-v2.1.0'',
                        [(pixel_request, response_200 (url pixel_request))])],
            fetched = [pixel_request]\<rparr>)"
    using second_hit[of "''police288-static-v2.1.0''" "url pixel_request" "url pixel_request"] g
    by (simp add: handleStaticAsset_hit)
  show ?thesis
    by (simp only: api noimg other fetch_listener_static[OF get http] first second simp_thms)
qed

text \<open>
  Claim C4. The claim says that an image request gets the placeholder image when the
  fetch throws and nothing is cached. For an image of the site (no static extension, no
  manifest entry but the first included), an empty cache storage and a network that is
  down, the listener resolves with \<^verbatim>\<open>undefined\<close>.
\<close>


theorem image_request_gets_no_placeholder:
  "isImageRequest (url image_request) \<and>
   \<not> has_extension [''css'', ''js'', ''woff2'', ''woff'', ''ttf''] (url image_request) \<and>
   \<not> list_ex (\<lambda>staticUrl. js_includes (url image_request) (replace_slash staticUrl))
        (tl STATIC_CACHE_URLS) \<and>
   caches_match (caches empty_state) image_request = None \<and>
   offline image_request = Inl (TypeError ''Failed to fetch'') \<and>
   fetch_listener site offline image_request empty_state =
     Some (Inr None, \<lparr>caches = [], fetched = [image_request]\<rparr>)"
proof -
  have img: "isImageRequest (url image_request)"
    by code_simp
  have other: "\<not> has_extension [''css'', ''js'', ''woff2'', ''woff'', ''ttf''] (url image_request) \<and>
     \<not> list_ex (\<lambda>staticUrl. js_includes (url image_request) (replace_slash staticUrl))
        (tl STATIC_CACHE_URLS)"
    by code_simp
  have get: "http_method image_request = ''GET''"
    and http: "prefix ''http'' (protocol (url image_request))"
    by (simp_all add: image_request_def protocol_def)
  have miss: "caches_match (caches empty_state) image_request = None"
    by (rule empty_miss)
  have down: "offline image_request = Inl (TypeError ''Failed to fetch'')"
    by (simp add: offline_def)
  have "handleStaticAsset offline image_request empty_state =
      (Inr None, \<lparr>caches = [], fetched = [image_request]\<rparr>)"
    using handleStaticAsset_miss_error[of empty_state image_request offline, OF miss down]
    by (simp add: empty_state_def)
  then show ?thesis
    by (simp only: img other miss down fetch_listener_static[OF get http] simp_thms)
qed

text \<open>
  Claim C5. The claim says that a page document is fetched first and stored in the
  dynamic namespace, and that the fallback document is served when the fetch throws and
  the page is not cached. For a page of the site (no extension, no API URL, no manifest
  entry but the first included) the listener stores the response in the static
  namespace, and with the network down and \<^verbatim>\<open>/index.html\<close> cached it resolves with
  \<^verbatim>\<open>undefined\<close>.
\<close>


theorem page_request_served_cache_first:
  "\<not> isImageRequest (url page_request) \<and> \<not> isAPIRequest (url page_request) \<and>
   \<not> has_extension [''css'', ''js'', ''woff2'', ''woff'', ''ttf''] (url page_request) \<and>
   \<not> list_ex (\<lambda>staticUrl. js_includes (url page_request) (replace_slash staticUrl))
        (tl STATIC_CACHE_URLS) \<and>
   fetch_listener site online page_request empty_state =
     Some (Inr (Some (response_200 (url page_request))),
           \<lparr>caches = [(''police288-static-v2.1.0'',
                        [(page_request, response_200 (url page_request))])],
            fetched = [page_request]\<rparr>) \<and>
   fetch_listener site offline page_request
       \<lparr>caches = [(''police288-static-v2.1.0'',
                    [(GET ''https://288-flashlight.vercel.app/index.html'',
                      response_200 ''<html>'')])],
        fetched = []\<rparr> =
     Some (Inr None,
           \<lparr>caches = [(''police288-static-v2.1.0'',
                    [(GET ''https://288-flashlight.vercel.app/index.html'',
                      response_200 ''<html>'')])],
            fetched = [page_request]\<rparr>)"
proof -
  have noimg: "\<not> isImageRequest (url page_request)"
    by code_simp
  have other: "\<not> has_extension [''css'', ''js'', ''woff2'', ''woff'', ''ttf''] (url page_request) \<and>
     \<not> list_ex (\<lambda>staticUrl. js_includes (url page_request) (replace_slash staticUrl))
        (tl STATIC_CACHE_URLS)"
    by code_simp
  have noapi: "\<not> isAPIRequest (url page_request)"
    by code_simp
  have get: "http_method page_request = ''GET''"
    and http: "prefix ''http'' (protocol (url page_request))"
    and scheme: "http_scheme (url page_request)"
    by (simp_all add: page_request_def protocol_def http_scheme_def)
  have g: "page_request = GET (url page_request)"
    by (simp add: page_request_def)
  have first: "handleStaticAsset online page_request empty_state =
     (Inr (Some (response_200 (url page_request))),
           \<lparr>caches = [(''police288-static-v2.1.0'',
                        [(page_request, response_200 (url page_request))])],
            fetched = [page_request]\<rparr>)"
    using first_store[OF scheme] g by simp
  have down: "offline page_request = Inl (TypeError ''Failed to fetch'')"
    by (simp add: offline_def)
  have miss: "caches_match
       [(''police288-static-v2.1.0'',
          [(GET ''https://288-flashlight.vercel.app/index.html'', response_200 ''<html>'')])]
       page_request = None"
    by (simp add: cache_match_def request_matches_def cache_key_def page_request_def)
  have second: "handleStaticAsset offline page_request
       \<lparr>caches = [(''police288-static-v2.1.0'',
                    [(GET ''https://288-flashlight.vercel.app/index.html'',
                      response_200 ''<html>'')])],
        fetched = []\<rparr> =
     (Inr None,
           \<lparr>caches = [(''police288-static-v2.1.0'',
                    [(GET ''https://288-flashlight.vercel.app/index.html'',
                      response_200 ''<html>'')])],
            fetched = [page_request]\<rparr>)"
    using down miss
    by (simp add: handleStaticAsset_miss_error)
  show ?thesis
    by (simp only: noimg noapi other fetch_listener_static[OF get http] first second simp_thms)
qed

section \<open>Properties of sendToMakeWebhook\<close>

text \<open>
  \<^verbatim>\<open>!error.name\<close> is a boolean and \<^verbatim>\<open>'AbortError'\<close> a string, so the strict comparison
  in the retry condition is false for every error: the function never calls itself.
\<close>

lemma should_retry_never: "\<not> should_retry retryCount e"
  by (simp add: should_retry_def)

lemma sendToMakeWebhook_one_post: "snd (sendToMakeWebhook env retryCount) = [Post retryCount]"
  by (subst sendToMakeWebhook.simps) (simp add: should_retry_never split: sum.splits)

text \<open>
  Claim C7. The claim says that a failed POST is repeated up to two more times. When the
  webhook answers with status 500 well inside the timeout, sendToMakeWebhook reports
  the failure after the first POST, without a wait and without a second POST.
\<close>

theorem sendToMakeWebhook_gives_up_after_first_failure:
  "try_post (failing_webhook 0) = Inl \<lparr>name = ''Error'', message = HttpErrorMessage 500\<rparr> \<and>
   sendToMakeWebhook failing_webhook 0 = (Failure (HttpErrorMessage 500), [Post 0])"
proof -
  have t: "try_post (failing_webhook 0) = Inl \<lparr>name = ''Error'', message = HttpErrorMessage 500\<rparr>"
    by (simp add: try_post_def post_def failing_webhook_def timeout_def)
  show ?thesis
    by (subst sendToMakeWebhook.simps) (simp add: t should_retry_never)
qed

section \<open>Properties of convertArabicToEnglishNumbers\<close>

lemma englishNumbers_length: "length englishNumbers = length arabicNumbers"
  by (simp add: arabicNumbers_def englishNumbers_def)

lemma convert_from_map: "convert_from i s = map (subst_from i) s"
proof (induction i s rule: convert_from.induct)
  case (1 i result)
  show ?case
  proof (cases "i < length arabicNumbers")
    case True
    then have "i < length (zip arabicNumbers englishNumbers)"
      by (simp add: englishNumbers_length)
    from Cons_nth_drop_Suc[OF this, symmetric] True
    have d: "drop i (zip arabicNumbers englishNumbers)
        = (arabicNumbers ! i, englishNumbers ! i) # drop (Suc i) (zip arabicNumbers englishNumbers)"
      by (simp add: englishNumbers_length)
    from True 1 have "convert_from i result
       = map (subst_from (i + 1)) (replace_global (arabicNumbers ! i) (englishNumbers ! i) result)"
      by (subst convert_from.simps) simp
    also have "\<dots> = map (subst_from i) result"
      using d by (simp add: replace_global_def subst_from_def)
    finally show ?thesis .
  next
    case False
    then have "drop i (zip arabicNumbers englishNumbers) = []" by simp
    then have "map (subst_from i) result = result" by (simp add: map_idI subst_from_def)
    with False show ?thesis by (subst convert_from.simps) simp
  qed
qed

text \<open>The ten substitutions, made one after the other, act as the digit table does.\<close>

lemma subst_from_0: "subst_from 0 c = ascii_digit_of c"
  unfolding ascii_digit_of_def is_arabic_digit_def subst_from_def
  apply (simp add: arabicNumbers_def englishNumbers_def)
  apply (auto simp: word_le_nat_alt)
  apply unat_arith
  done

lemma ascii_digit_of_idem: "ascii_digit_of (ascii_digit_of c) = ascii_digit_of c"
proof -
  have "\<not> is_arabic_digit (subst_from 0 c)"
    unfolding is_arabic_digit_def subst_from_def
    apply (simp add: arabicNumbers_def englishNumbers_def)
    apply (auto simp: word_le_nat_alt)
    apply unat_arith
    done
  then show ?thesis
    by (simp add: subst_from_0 ascii_digit_of_def)
qed

text \<open>
  Claim C10. For every input string, convertArabicToEnglishNumbers replaces each
  Arabic-Indic digit by the ASCII digit of the same value and leaves every other code
  unit as it is, position by position (so length and order are kept), and applying it
  twice gives what applying it once gives.
\<close>

theorem convertArabicToEnglishNumbers_digits:
  "convertArabicToEnglishNumbers s = map ascii_digit_of s \<and>
   length (convertArabicToEnglishNumbers s) = length s \<and>
   convertArabicToEnglishNumbers (convertArabicToEnglishNumbers s) =
     convertArabicToEnglishNumbers s"
proof -
  have m: "convertArabicToEnglishNumbers t = map ascii_digit_of t" for t
    unfolding convertArabicToEnglishNumbers_def convert_from_map
    by (simp add: subst_from_0)
  show ?thesis by (simp add: m ascii_digit_of_idem)
qed

end
